theory Spec2Isabelle
  imports Complex_Main
begin

section \<open>JavaScript values as server.js handles them\<close>

text \<open>
  Every value the handlers of server.js touch comes out of a JSON parser (the request
  body, the token and profile responses), out of the query string, or is built by the
  handler itself (strings, \<^verbatim>\<open>Date.now()\<close>, \<^verbatim>\<open>new Date()\<close>, object literals).
  A number is kept up to the equality a JavaScript Map uses for its keys: a finite
  number by its exact value (both zeros are the one value 0) and the two infinities
  (JSON text such as 1e999 parses to Infinity).
\<close>

datatype jsnum = Fin rat | PosInfinity | NegInfinity

datatype jsval =
    Undefined
  | Null
  | Bool bool
  | Num jsnum
  | Str string
  | Arr "jsval list"
  | Obj "(string \<times> jsval) list"
  | Date int

text \<open>An object is the list of its own properties in insertion order, each name once;
  a read takes the first pair with the name.\<close>

type_synonym jsobject = "(string \<times> jsval) list"

text \<open>Exceptions: the TypeError of a property read on undefined or null, and the rejection
  of an awaited promise of an external call (network, HTTP client, Discord library).\<close>

datatype exn = TypeError | Rejected

text \<open>Truthiness, as \<^verbatim>\<open>!x\<close> and \<^verbatim>\<open>a || b\<close> test it.\<close>

fun truthy :: "jsval \<Rightarrow> bool" where
  "truthy Undefined = False"
| "truthy Null = False"
| "truthy (Bool b) = b"
| "truthy (Num n) = (n \<noteq> Fin 0)"
| "truthy (Str s) = (s \<noteq> [])"
| "truthy (Arr xs) = True"
| "truthy (Obj fs) = True"
| "truthy (Date t) = True"

text \<open>
  Reading the property \<open>k\<close> of a value that is neither undefined nor null. The
  handlers read only the names customFields, discordUserId, id, access_token, username
  and discordId, none of which a string, number, boolean, array, Date or Object prototype
  defines: the read finds an own property of an object or gives undefined.
\<close>

fun get_prop :: "jsval \<Rightarrow> string \<Rightarrow> jsval" where
  "get_prop (Obj fs) k = (case map_of fs k of None \<Rightarrow> Undefined | Some v \<Rightarrow> v)"
| "get_prop v k = Undefined"

fun nullish :: "jsval \<Rightarrow> bool" where
  "nullish Undefined = True"
| "nullish Null = True"
| "nullish v = False"

text \<open>\<^verbatim>\<open>v.k\<close>: a TypeError on undefined and null.\<close>

definition read_prop :: "jsval \<Rightarrow> string \<Rightarrow> exn + jsval" where
  "read_prop v k = (if nullish v then Inl TypeError else Inr (get_prop v k))"

text \<open>\<^verbatim>\<open>v?.k\<close>: undefined on undefined and null.\<close>

definition opt_member :: "jsval \<Rightarrow> string \<Rightarrow> jsval" where
  "opt_member v k = (if nullish v then Undefined else get_prop v k)"

text \<open>\<^verbatim>\<open>obj.k = v\<close> on an object: an existing property keeps its place, a new one
  goes last.\<close>

fun set_prop :: "jsobject \<Rightarrow> string \<Rightarrow> jsval \<Rightarrow> jsobject" where
  "set_prop [] k v = [(k, v)]"
| "set_prop ((k', v') # fs) k v =
     (if k' = k then (k, v) # fs else (k', v') # set_prop fs k v)"

text \<open>An environment variable is a string or undefined; in a template literal undefined
  prints as the text undefined.\<close>

definition template :: "string option \<Rightarrow> string" where
  "template e = (case e of None \<Rightarrow> ''undefined'' | Some s \<Rightarrow> s)"

text \<open>\<^verbatim>\<open>Date.now().toString()\<close>: the decimal digits of an integer number of
  milliseconds.\<close>

definition digit_char :: "nat \<Rightarrow> char" where
  "digit_char d = ''0123456789'' ! d"

fun show_nat :: "nat \<Rightarrow> string" where
  "show_nat n = (if n < 10 then [digit_char n] else show_nat (n div 10) @ [digit_char (n mod 10)])"

declare show_nat.simps [simp del]

definition show_int :: "int \<Rightarrow> string" where
  "show_int i = (if i < 0 then CHR ''-'' # show_nat (nat (- i)) else show_nat (nat i))"

section \<open>The subscription store\<close>

text \<open>
  \<^verbatim>\<open>const subscriptions = new Map()\<close>. A Map compares primitive keys by value and
  object keys (objects, arrays) by reference. A key that is an object has the identity
  of the object it is; \<open>KRef a\<close> stands for the object at address \<open>a\<close>.
  Both \<^verbatim>\<open>subscriptions.set\<close> calls of server.js store a fresh object literal, so
  every stored value is an object, held by the one entry it was stored under.
\<close>

datatype mapkey = KUndefined | KNull | KBool bool | KNum jsnum | KStr string | KRef nat

type_synonym store = "mapkey \<rightharpoonup> jsobject"

text \<open>The Map key a value is used as; \<open>a\<close> is the address of the value when it is an
  object.\<close>

fun key_of :: "nat \<Rightarrow> jsval \<Rightarrow> mapkey" where
  "key_of a Undefined = KUndefined"
| "key_of a Null = KNull"
| "key_of a (Bool b) = KBool b"
| "key_of a (Num n) = KNum n"
| "key_of a (Str s) = KStr s"
| "key_of a (Arr xs) = KRef a"
| "key_of a (Obj fs) = KRef a"
| "key_of a (Date t) = KRef a"

section \<open>The Discord client and the two role functions\<close>

text \<open>
  The discord.js client is external. Each of its calls either resolves to a value or
  rejects; \<open>'g\<close>, \<open>'m\<close> and \<open>'r\<close> are the library's guild, member and role objects
  (a role lookup may resolve to an object that \<open>roles_add\<close> then rejects). \<open>user_tag\<close>
  is the expression \<^verbatim>\<open>member.user.tag\<close> of the log line, which is evaluated inside
  the try block as well.
\<close>

record ('g, 'm, 'r) discord =
  guilds_fetch :: "string option \<Rightarrow> exn + 'g"
  members_fetch :: "'g \<Rightarrow> jsval \<Rightarrow> exn + 'm"
  roles_fetch :: "'g \<Rightarrow> string option \<Rightarrow> exn + 'r"
  roles_add :: "'m \<Rightarrow> 'r \<Rightarrow> exn + unit"
  roles_remove :: "'m \<Rightarrow> 'r \<Rightarrow> exn + unit"
  user_tag :: "'m \<Rightarrow> exn + string"

record env =
  DISCORD_GUILD_ID :: "string option"
  PREMIUM_ROLE_ID :: "string option"
  WEBSITE_URL :: "string option"

text \<open>Sequencing of steps that may throw: the first exception ends the block.\<close>

definition andThen :: "exn + 'a \<Rightarrow> ('a \<Rightarrow> exn + 'b) \<Rightarrow> exn + 'b" where
  "andThen r f = (case r of Inl e \<Rightarrow> Inl e | Inr x \<Rightarrow> f x)"

text \<open>\<^verbatim>\<open>try { body } catch (error) { handler }\<close>\<close>

definition try_catch :: "exn + 'a \<Rightarrow> (exn \<Rightarrow> exn + 'a) \<Rightarrow> exn + 'a" where
  "try_catch body handler = (case body of Inl e \<Rightarrow> handler e | Inr x \<Rightarrow> Inr x)"

definition assignPremiumRole :: "('g, 'm, 'r) discord \<Rightarrow> env \<Rightarrow> jsval \<Rightarrow> exn + bool" where
  "assignPremiumRole client ev discordUserId =
     try_catch
       (andThen (guilds_fetch client (DISCORD_GUILD_ID ev)) (\<lambda>guild.
        andThen (members_fetch client guild discordUserId) (\<lambda>member.
        andThen (roles_fetch client guild (PREMIUM_ROLE_ID ev)) (\<lambda>role.
        andThen (roles_add client member role) (\<lambda>_.
        andThen (user_tag client member) (\<lambda>_.
        Inr True))))))
       (\<lambda>error. Inr False)"

definition removePremiumRole :: "('g, 'm, 'r) discord \<Rightarrow> env \<Rightarrow> jsval \<Rightarrow> exn + bool" where
  "removePremiumRole client ev discordUserId =
     try_catch
       (andThen (guilds_fetch client (DISCORD_GUILD_ID ev)) (\<lambda>guild.
        andThen (members_fetch client guild discordUserId) (\<lambda>member.
        andThen (roles_fetch client guild (PREMIUM_ROLE_ID ev)) (\<lambda>role.
        andThen (roles_remove client member role) (\<lambda>_.
        andThen (user_tag client member) (\<lambda>_.
        Inr True))))))
       (\<lambda>error. Inr False)"

section \<open>Requests, responses and effects\<close>

text \<open>\<^verbatim>\<open>res.status(n).json(body)\<close> (status 200 when none is set) and
  \<^verbatim>\<open>res.redirect(url)\<close>, which answers 302 with the URL as location.\<close>

datatype response = Json nat jsval | Redirect nat string

text \<open>
  What a handler does to the world outside its own variables, in program order: the
  calls of the two role functions with the argument and what the await gave, the two
  HTTP calls of the OAuth flow with the value sent, and each write to the store
  (a \<^verbatim>\<open>subscriptions.set\<close> or an assignment to a field of a stored record) with
  its key.
\<close>

datatype effect =
    Grant jsval "exn + bool"
  | Revoke jsval "exn + bool"
  | TokenExchange jsval
  | ProfileFetch jsval
  | StoreWrite mapkey

record outcome =
  response :: response
  subscriptions :: store
  effects :: "effect list"

text \<open>The two fetches of the OAuth flow, each with the parsing of its JSON body: the
  exchange of the code for the token data, and the profile read with the access token.\<close>

record oauth =
  token_exchange :: "jsval \<Rightarrow> exn + jsval"
  profile_fetch :: "jsval \<Rightarrow> exn + jsval"

definition error_body :: "string \<Rightarrow> jsval" where
  "error_body msg = Obj [(''error'', Str msg)]"

definition success_body :: "string \<Rightarrow> jsval" where
  "success_body msg = Obj [(''success'', Bool True), (''message'', Str msg)]"

section \<open>GET /auth/discord/callback\<close>

text \<open>
  \<open>code\<close> is \<^verbatim>\<open>req.query.code\<close> (undefined when the parameter is missing),
  \<open>t1\<close> and \<open>t2\<close> are the two readings of \<^verbatim>\<open>Date.now()\<close>, \<open>subs\<close> is the
  store when the request arrives. The handler runs without another request in between.
\<close>

definition oauth_callback ::
  "oauth \<Rightarrow> env \<Rightarrow> int \<Rightarrow> int \<Rightarrow> store \<Rightarrow> jsval \<Rightarrow> outcome" where
  "oauth_callback web ev t1 t2 subs code =
     (if \<not> truthy code then
        \<lparr>response = Json 400 (error_body ''No code provided''), subscriptions = subs, effects = []\<rparr>
      else
        (case token_exchange web code of
           Inl error \<Rightarrow>
             \<lparr>response = Json 500 (error_body ''Authentication failed''), subscriptions = subs,
              effects = [TokenExchange code]\<rparr>
         | Inr tokenData \<Rightarrow>
             (case read_prop tokenData ''access_token'' of
                Inl error \<Rightarrow>
                  \<lparr>response = Json 500 (error_body ''Authentication failed''),
                   subscriptions = subs, effects = [TokenExchange code]\<rparr>
              | Inr access_token \<Rightarrow>
                  (case profile_fetch web access_token of
                     Inl error \<Rightarrow>
                       \<lparr>response = Json 500 (error_body ''Authentication failed''),
                        subscriptions = subs,
                        effects = [TokenExchange code, ProfileFetch access_token]\<rparr>
                   | Inr userData \<Rightarrow>
                       (let sessionId = show_int t1 in
                        case read_prop userData ''id'' of
                          Inl error \<Rightarrow>
                            \<lparr>response = Json 500 (error_body ''Authentication failed''),
                             subscriptions = subs,
                             effects = [TokenExchange code, ProfileFetch access_token]\<rparr>
                        | Inr userId \<Rightarrow>
                            \<lparr>response =
                               Redirect 302
                                 (template (WEBSITE_URL ev) @ ''/checkout?session='' @ sessionId),
                             subscriptions =
                               subs(KStr sessionId \<mapsto>
                                 [(''discordId'', userId),
                                  (''username'', get_prop userData ''username''),
                                  (''timestamp'', Num (Fin (of_int t2)))]),
                             effects =
                               [TokenExchange code, ProfileFetch access_token,
                                StoreWrite (KStr sessionId)]\<rparr>)))))"

section \<open>POST /webhook/purchase\<close>

text \<open>\<^verbatim>\<open>order.customFields?.discordUserId || order.discordUserId\<close>\<close>

definition discordUserId_of :: "jsval \<Rightarrow> exn + jsval" where
  "discordUserId_of order =
     andThen (read_prop order ''customFields'') (\<lambda>customFields.
       let nested = opt_member customFields ''discordUserId''
       in if truthy nested then Inr nested else read_prop order ''discordUserId'')"

text \<open>
  \<open>order\<close> is \<^verbatim>\<open>req.body\<close>, \<open>addr\<close> the address of the object \<^verbatim>\<open>order.id\<close>
  (of use only when the id is an object or an array), \<open>now\<close> the time
  \<^verbatim>\<open>new Date()\<close> reads, \<open>subs\<close> the store when the request arrives. The
  handler runs without another request in between. A body that is undefined or null makes
  the first property read throw, which the catch block answers with 500.
\<close>

definition purchase_webhook ::
  "('g, 'm, 'r) discord \<Rightarrow> env \<Rightarrow> int \<Rightarrow> nat \<Rightarrow> store \<Rightarrow> jsval \<Rightarrow> outcome" where
  "purchase_webhook client ev now addr subs order =
     (case discordUserId_of order of
        Inl error \<Rightarrow>
          \<lparr>response = Json 500 (error_body ''Webhook processing failed''), subscriptions = subs,
           effects = []\<rparr>
      | Inr discordUserId \<Rightarrow>
          if \<not> truthy discordUserId then
            \<lparr>response = Json 400 (error_body ''No Discord user ID''), subscriptions = subs,
             effects = []\<rparr>
          else
            (case assignPremiumRole client ev discordUserId of
               Inl error \<Rightarrow>
                 \<lparr>response = Json 500 (error_body ''Webhook processing failed''),
                  subscriptions = subs, effects = [Grant discordUserId (Inl error)]\<rparr>
             | Inr success \<Rightarrow>
                 if success then
                   \<lparr>response = Json 200 (success_body ''Role assigned successfully''),
                    subscriptions =
                      subs(key_of addr (get_prop order ''id'') \<mapsto>
                        [(''discordId'', discordUserId),
                         (''orderId'', get_prop order ''id''),
                         (''status'', Str ''active''),
                         (''createdAt'', Date now)]),
                    effects =
                      [Grant discordUserId (Inr True),
                       StoreWrite (key_of addr (get_prop order ''id''))]\<rparr>
                 else
                   \<lparr>response = Json 500 (error_body ''Failed to assign role''),
                    subscriptions = subs, effects = [Grant discordUserId (Inr False)]\<rparr>))"

section \<open>POST /webhook/cancellation\<close>

text \<open>
  \<^verbatim>\<open>subscriptions.get\<close> gives the stored object or undefined; the stored object is
  changed in place, which the store sees under the key it was read from.
\<close>

definition cancellation_webhook ::
  "('g, 'm, 'r) discord \<Rightarrow> env \<Rightarrow> int \<Rightarrow> nat \<Rightarrow> store \<Rightarrow> jsval \<Rightarrow> outcome" where
  "cancellation_webhook client ev now addr subs order =
     (case read_prop order ''id'' of
        Inl error \<Rightarrow>
          \<lparr>response = Json 500 (error_body ''Webhook processing failed''), subscriptions = subs,
           effects = []\<rparr>
      | Inr orderId \<Rightarrow>
          (case subs (key_of addr orderId) of
             None \<Rightarrow>
               \<lparr>response = Json 404 (error_body ''Subscription not found''),
                subscriptions = subs, effects = []\<rparr>
           | Some subscription \<Rightarrow>
               (let discordId = get_prop (Obj subscription) ''discordId'' in
                case removePremiumRole client ev discordId of
                  Inl error \<Rightarrow>
                    \<lparr>response = Json 500 (error_body ''Webhook processing failed''),
                     subscriptions = subs, effects = [Revoke discordId (Inl error)]\<rparr>
                | Inr success \<Rightarrow>
                    if success then
                      \<lparr>response = Json 200 (success_body ''Role removed successfully''),
                       subscriptions =
                         subs(key_of addr orderId \<mapsto>
                           set_prop (set_prop subscription ''status'' (Str ''cancelled''))
                             ''cancelledAt'' (Date now)),
                       effects =
                         [Revoke discordId (Inr True), StoreWrite (key_of addr orderId),
                          StoreWrite (key_of addr orderId)]\<rparr>
                    else
                      \<lparr>response = Json 500 (error_body ''Failed to remove role''),
                       subscriptions = subs, effects = [Revoke discordId (Inr False)]\<rparr>)))"

section \<open>Concrete clients and requests\<close>

text \<open>A Discord client every call of which resolves, and one where the member lookup
  rejects (an unknown member, a network failure).\<close>

definition example_client :: "(unit, unit, unit) discord" where
  "example_client =
     \<lparr>guilds_fetch = (\<lambda>g. Inr ()), members_fetch = (\<lambda>g u. Inr ()),
      roles_fetch = (\<lambda>g r. Inr ()), roles_add = (\<lambda>m r. Inr ()),
      roles_remove = (\<lambda>m r. Inr ()), user_tag = (\<lambda>m. Inr ''buyer#0001'')\<rparr>"

definition failing_client :: "(unit, unit, unit) discord" where
  "failing_client =
     \<lparr>guilds_fetch = (\<lambda>g. Inr ()), members_fetch = (\<lambda>g u. Inl Rejected),
      roles_fetch = (\<lambda>g r. Inr ()), roles_add = (\<lambda>m r. Inr ()),
      roles_remove = (\<lambda>m r. Inr ()), user_tag = (\<lambda>m. Inr ''buyer#0001'')\<rparr>"

definition example_env :: env where
  "example_env =
     \<lparr>DISCORD_GUILD_ID = Some ''g1'', PREMIUM_ROLE_ID = Some ''r1'',
      WEBSITE_URL = Some ''https://shop.example''\<rparr>"

text \<open>Token and profile endpoints that answer with an access token and with the profile
  of the account d1.\<close>

definition example_web :: oauth where
  "example_web =
     \<lparr>token_exchange = (\<lambda>code. Inr (Obj [(''access_token'', Str ''tok'')])),
      profile_fetch =
        (\<lambda>token. Inr (Obj [(''id'', Str ''d1''), (''username'', Str ''buyer'')]))\<rparr>"

text \<open>The purchase body \<^verbatim>\<open>{id: "o1", discordUserId: "d1"}\<close>, the purchase body
  \<^verbatim>\<open>{id: "o2", customFields: {discordUserId: "d2"}}\<close>, the cancellation body
  \<^verbatim>\<open>{id: "o1"}\<close>, the record the purchase stores at time 5, that record once
  cancelled at time 7, and a record as the OAuth callback stores it.\<close>

definition example_order :: jsval where
  "example_order = Obj [(''id'', Str ''o1''), (''discordUserId'', Str ''d1'')]"

definition nested_order :: jsval where
  "nested_order =
     Obj [(''id'', Str ''o2''), (''customFields'', Obj [(''discordUserId'', Str ''d2'')])]"

definition example_cancellation :: jsval where
  "example_cancellation = Obj [(''id'', Str ''o1'')]"

definition active_record :: jsobject where
  "active_record =
     [(''discordId'', Str ''d1''), (''orderId'', Str ''o1''), (''status'', Str ''active''),
      (''createdAt'', Date 5)]"

definition cancelled_record :: jsobject where
  "cancelled_record =
     [(''discordId'', Str ''d1''), (''orderId'', Str ''o1''), (''status'', Str ''cancelled''),
      (''createdAt'', Date 5), (''cancelledAt'', Date 7)]"

definition session_record :: jsobject where
  "session_record =
     [(''discordId'', Str ''d1''), (''username'', Str ''buyer''), (''timestamp'', Num (Fin 43))]"

section \<open>Auxiliary facts\<close>

lemma map_of_set_prop_same: "map_of (set_prop fs k v) k = Some v"
  by (induction fs) auto

lemma map_of_set_prop_other: "k' \<noteq> k \<Longrightarrow> map_of (set_prop fs k v) k' = map_of fs k'"
  by (induction fs) auto

lemma assignPremiumRole_returns:
  "assignPremiumRole client ev uid = Inr True \<or> assignPremiumRole client ev uid = Inr False"
  by (simp add: assignPremiumRole_def try_catch_def andThen_def split: sum.splits)

lemma removePremiumRole_returns:
  "removePremiumRole client ev uid = Inr True \<or> removePremiumRole client ev uid = Inr False"
  by (simp add: removePremiumRole_def try_catch_def andThen_def split: sum.splits)

lemma example_grant: "assignPremiumRole example_client example_env uid = Inr True"
  by (simp add: assignPremiumRole_def try_catch_def andThen_def example_client_def)

lemma example_revoke: "removePremiumRole example_client example_env uid = Inr True"
  by (simp add: removePremiumRole_def try_catch_def andThen_def example_client_def)

lemma failing_grant: "assignPremiumRole failing_client example_env uid = Inr False"
  by (simp add: assignPremiumRole_def try_catch_def andThen_def failing_client_def)

lemma failing_revoke: "removePremiumRole failing_client example_env uid = Inr False"
  by (simp add: removePremiumRole_def try_catch_def andThen_def failing_client_def)

lemma example_order_identity: "discordUserId_of example_order = Inr (Str ''d1'')"
  by (simp add: discordUserId_of_def example_order_def read_prop_def opt_member_def
      andThen_def)

lemma example_order_id: "get_prop example_order ''id'' = Str ''o1''"
  by (simp add: example_order_def)

lemma example_cancellation_id: "read_prop example_cancellation ''id'' = Inr (Str ''o1'')"
  by (simp add: example_cancellation_def read_prop_def)

lemma show_int_42: "show_int 42 = ''42''"
  by (simp add: show_int_def show_nat.simps digit_char_def)

lemma example_purchase_store:
  "subscriptions (purchase_webhook example_client example_env 5 0 Map.empty example_order) =
     [KStr ''o1'' \<mapsto> active_record]"
  by (simp add: purchase_webhook_def example_order_identity example_grant example_order_id
      active_record_def)

text \<open>On a body whose fields can be read, the handler's lookup of the identity id gives
  the nested value when JavaScript counts it as true and the top-level value otherwise.\<close>

lemma discordUserId_of_readable:
  assumes "\<not> nullish order"
    and "uid = (if truthy (get_prop (get_prop order ''customFields'') ''discordUserId'')
                then get_prop (get_prop order ''customFields'') ''discordUserId''
                else get_prop order ''discordUserId'')"
  shows "discordUserId_of order = Inr uid"
proof -
  have "opt_member (get_prop order ''customFields'') ''discordUserId'' =
      get_prop (get_prop order ''customFields'') ''discordUserId''"
    by (cases "get_prop order ''customFields''") (simp_all add: opt_member_def)
  then show ?thesis
    using assms by (simp add: discordUserId_of_def read_prop_def andThen_def Let_def)
qed

section \<open>The role functions\<close>

text \<open>
  Claim C9. For every identity id, the grant and the revoke function never pass an
  exception on to their caller: each returns true or false. It returns true exactly when
  every step of its try block resolved (guild lookup, member lookup, role lookup, the role
  change, the log line), hence false on any failure of a lookup, of the role change
  (a permission error) or of the network.
\<close>

theorem role_functions_never_throw:
  "(assignPremiumRole client ev uid = Inr True \<or> assignPremiumRole client ev uid = Inr False)
   \<and> (assignPremiumRole client ev uid = Inr True \<longleftrightarrow>
        (\<exists>guild member role done tag.
           guilds_fetch client (DISCORD_GUILD_ID ev) = Inr guild
           \<and> members_fetch client guild uid = Inr member
           \<and> roles_fetch client guild (PREMIUM_ROLE_ID ev) = Inr role
           \<and> roles_add client member role = Inr done
           \<and> user_tag client member = Inr tag))
   \<and> (removePremiumRole client ev uid = Inr True \<or> removePremiumRole client ev uid = Inr False)
   \<and> (removePremiumRole client ev uid = Inr True \<longleftrightarrow>
        (\<exists>guild member role done tag.
           guilds_fetch client (DISCORD_GUILD_ID ev) = Inr guild
           \<and> members_fetch client guild uid = Inr member
           \<and> roles_fetch client guild (PREMIUM_ROLE_ID ev) = Inr role
           \<and> roles_remove client member role = Inr done
           \<and> user_tag client member = Inr tag))"
proof -
  have grant: "assignPremiumRole client ev uid = Inr True \<longleftrightarrow>
        (\<exists>guild member role done tag.
           guilds_fetch client (DISCORD_GUILD_ID ev) = Inr guild
           \<and> members_fetch client guild uid = Inr member
           \<and> roles_fetch client guild (PREMIUM_ROLE_ID ev) = Inr role
           \<and> roles_add client member role = Inr done
           \<and> user_tag client member = Inr tag)"
    by (auto simp add: assignPremiumRole_def try_catch_def andThen_def split: sum.splits)
  have revoke: "removePremiumRole client ev uid = Inr True \<longleftrightarrow>
        (\<exists>guild member role done tag.
           guilds_fetch client (DISCORD_GUILD_ID ev) = Inr guild
           \<and> members_fetch client guild uid = Inr member
           \<and> roles_fetch client guild (PREMIUM_ROLE_ID ev) = Inr role
           \<and> roles_remove client member role = Inr done
           \<and> user_tag client member = Inr tag)"
    by (auto simp add: removePremiumRole_def try_catch_def andThen_def split: sum.splits)
  from grant revoke assignPremiumRole_returns [of client ev uid]
    removePremiumRole_returns [of client ev uid]
  show ?thesis by blast
qed

text \<open>With the member lookup rejecting, both functions return false; with every call
  resolving, the grant returns true.\<close>

theorem role_functions_never_throw_witness:
  "assignPremiumRole failing_client example_env (Str ''d1'') = Inr False
   \<and> removePremiumRole failing_client example_env (Str ''d1'') = Inr False
   \<and> assignPremiumRole example_client example_env (Str ''d1'') = Inr True"
  using role_functions_never_throw [of failing_client example_env "Str ''d1''"]
    role_functions_never_throw [of example_client example_env "Str ''d1''"]
    failing_grant failing_revoke example_grant
  by simp

section \<open>The purchase webhook\<close>

text \<open>
  Claim C1. For every purchase webhook whose body carries an identity id, in the nested
  custom field \<^verbatim>\<open>customFields.discordUserId\<close> or in the top-level field
  \<^verbatim>\<open>discordUserId\<close> (a value JavaScript counts as true: the handler takes the empty
  string, 0, false and null for no id; the nested value goes first when both are there),
  if the role grant succeeds then the handler writes, under the order id as key, a record
  with that discordId, that orderId, status active and the creation time, and responds 200
  with the body \<^verbatim>\<open>{success: true, message: 'Role assigned successfully'}\<close>; a read
  of the store at that order id afterwards finds status active. This holds for every value
  of the order id, an absent one (undefined) included.
\<close>

theorem purchase_grant_success:
  assumes "truthy (get_prop (get_prop order ''customFields'') ''discordUserId'')
           \<or> truthy (get_prop order ''discordUserId'')"
    and "uid = (if truthy (get_prop (get_prop order ''customFields'') ''discordUserId'')
                then get_prop (get_prop order ''customFields'') ''discordUserId''
                else get_prop order ''discordUserId'')"
    and "assignPremiumRole client ev uid = Inr True"
  shows "response (purchase_webhook client ev now addr subs order) =
           Json 200 (Obj [(''success'', Bool True),
                          (''message'', Str ''Role assigned successfully'')])
       \<and> subscriptions (purchase_webhook client ev now addr subs order) =
           subs(key_of addr (get_prop order ''id'') \<mapsto>
             [(''discordId'', uid), (''orderId'', get_prop order ''id''),
              (''status'', Str ''active''), (''createdAt'', Date now)])
       \<and> (\<exists>record. subscriptions (purchase_webhook client ev now addr subs order)
                      (key_of addr (get_prop order ''id'')) = Some record
              \<and> get_prop (Obj record) ''discordId'' = uid
              \<and> get_prop (Obj record) ''orderId'' = get_prop order ''id''
              \<and> get_prop (Obj record) ''status'' = Str ''active''
              \<and> get_prop (Obj record) ''createdAt'' = Date now)
       \<and> effects (purchase_webhook client ev now addr subs order) =
           [Grant uid (Inr True), StoreWrite (key_of addr (get_prop order ''id''))]"
proof -
  have readable: "\<not> nullish order"
    using assms(1) by (cases order) simp_all
  have found: "discordUserId_of order = Inr uid"
    using readable assms(2) by (rule discordUserId_of_readable)
  have id: "truthy uid"
    using assms(1,2) by (simp split: if_splits)
  show ?thesis
    using found id assms(3) by (simp add: purchase_webhook_def success_body_def)
qed

text \<open>The body \<^verbatim>\<open>{id: "o1", discordUserId: "d1"}\<close> and the body
  \<^verbatim>\<open>{id: "o2", customFields: {discordUserId: "d2"}}\<close>, each on the empty store with
  the grant succeeding: 200 with the success body, and the store holds the active record
  of the account under the order id.\<close>

theorem purchase_grant_success_witness:
  "truthy (get_prop example_order ''discordUserId'')
   \<and> get_prop (get_prop example_order ''customFields'') ''discordUserId'' = Undefined
   \<and> get_prop example_order ''discordUserId'' = Str ''d1''
   \<and> assignPremiumRole example_client example_env (Str ''d1'') = Inr True
   \<and> response (purchase_webhook example_client example_env 5 0 Map.empty example_order) =
        Json 200 (Obj [(''success'', Bool True),
                       (''message'', Str ''Role assigned successfully'')])
   \<and> subscriptions (purchase_webhook example_client example_env 5 0 Map.empty example_order)
        (KStr ''o1'') =
        Some [(''discordId'', Str ''d1''), (''orderId'', Str ''o1''),
              (''status'', Str ''active''), (''createdAt'', Date 5)]
   \<and> truthy (get_prop (get_prop nested_order ''customFields'') ''discordUserId'')
   \<and> get_prop (get_prop nested_order ''customFields'') ''discordUserId'' = Str ''d2''
   \<and> get_prop nested_order ''discordUserId'' = Undefined
   \<and> assignPremiumRole example_client example_env (Str ''d2'') = Inr True
   \<and> response (purchase_webhook example_client example_env 6 0 Map.empty nested_order) =
        Json 200 (Obj [(''success'', Bool True),
                       (''message'', Str ''Role assigned successfully'')])
   \<and> subscriptions (purchase_webhook example_client example_env 6 0 Map.empty nested_order)
        (KStr ''o2'') =
        Some [(''discordId'', Str ''d2''), (''orderId'', Str ''o2''),
              (''status'', Str ''active''), (''createdAt'', Date 6)]"
proof -
  have t1: "get_prop (get_prop example_order ''customFields'') ''discordUserId'' = Undefined"
    by (simp add: example_order_def)
  have t2: "get_prop example_order ''discordUserId'' = Str ''d1''"
    by (simp add: example_order_def)
  have t3: "get_prop example_order ''id'' = Str ''o1''"
    by (simp add: example_order_def)
  have n1: "get_prop (get_prop nested_order ''customFields'') ''discordUserId'' = Str ''d2''"
    by (simp add: nested_order_def)
  have n2: "get_prop nested_order ''discordUserId'' = Undefined"
    by (simp add: nested_order_def)
  have n3: "get_prop nested_order ''id'' = Str ''o2''"
    by (simp add: nested_order_def)
  have a1: "truthy (get_prop (get_prop example_order ''customFields'') ''discordUserId'')
      \<or> truthy (get_prop example_order ''discordUserId'')"
    by (simp add: t1 t2)
  have a2: "Str ''d1'' =
      (if truthy (get_prop (get_prop example_order ''customFields'') ''discordUserId'')
       then get_prop (get_prop example_order ''customFields'') ''discordUserId''
       else get_prop example_order ''discordUserId'')"
    by (simp add: t1 t2)
  have a3: "assignPremiumRole example_client example_env (Str ''d1'') = Inr True"
    by (rule example_grant)
  have b1: "truthy (get_prop (get_prop nested_order ''customFields'') ''discordUserId'')
      \<or> truthy (get_prop nested_order ''discordUserId'')"
    by (simp add: n1 n2)
  have b2: "Str ''d2'' =
      (if truthy (get_prop (get_prop nested_order ''customFields'') ''discordUserId'')
       then get_prop (get_prop nested_order ''customFields'') ''discordUserId''
       else get_prop nested_order ''discordUserId'')"
    by (simp add: n1 n2)
  have b3: "assignPremiumRole example_client example_env (Str ''d2'') = Inr True"
    by (rule example_grant)
  show ?thesis
    using t1 t2 t3 n1 n2 n3 a3 b3
      purchase_grant_success [OF a1 a2 a3, of 5 0 Map.empty]
      purchase_grant_success [OF b1 b2 b3, of 6 0 Map.empty]
    by simp
qed

text \<open>
  Claim C4. For every purchase webhook whose body has no identity id, neither in the
  nested custom field nor at the top level (the lookup of the two places ends with a
  value JavaScript counts as false, undefined when both are absent), the handler responds
  400 and leaves the store as it was; it writes nothing and calls nothing. The body is
  any value whose fields can be read, that is any JSON value but null.
\<close>

theorem purchase_without_identity:
  assumes "discordUserId_of order = Inr v" and "\<not> truthy v"
  shows "response (purchase_webhook client ev now addr subs order) =
           Json 400 (error_body ''No Discord user ID'')
       \<and> subscriptions (purchase_webhook client ev now addr subs order) = subs
       \<and> effects (purchase_webhook client ev now addr subs order) = []"
  using assms by (simp add: purchase_webhook_def)

text \<open>The body \<^verbatim>\<open>{id: "o1"}\<close>, with both places absent.\<close>

theorem purchase_without_identity_witness:
  "discordUserId_of example_cancellation = Inr Undefined \<and> \<not> truthy Undefined
   \<and> response (purchase_webhook example_client example_env 5 0 Map.empty
         example_cancellation) = Json 400 (error_body ''No Discord user ID'')
   \<and> subscriptions (purchase_webhook example_client example_env 5 0 Map.empty
         example_cancellation) = Map.empty
   \<and> effects (purchase_webhook example_client example_env 5 0 Map.empty
         example_cancellation) = []"
proof -
  have h1: "discordUserId_of example_cancellation = Inr Undefined"
    by (simp add: discordUserId_of_def example_cancellation_def read_prop_def
        opt_member_def andThen_def)
  have h2: "\<not> truthy Undefined" by simp
  show ?thesis
    using h1 h2
      purchase_without_identity [OF h1 h2, of example_client example_env 5 0 Map.empty]
    by simp
qed

text \<open>
  Claim C5. For every purchase webhook with an identity id present, if the role grant
  returns false then the handler responds 500 and leaves the store as it was. The store
  is written only after a grant call that returned true: a write among the effects of a
  run comes second, after such a call, and a run that changes the store has exactly these
  two effects.
\<close>

theorem purchase_grant_failure:
  "(discordUserId_of order = Inr uid \<and> truthy uid
      \<and> assignPremiumRole client ev uid = Inr False
    \<longrightarrow> response (purchase_webhook client ev now addr subs order) =
          Json 500 (error_body ''Failed to assign role'')
        \<and> subscriptions (purchase_webhook client ev now addr subs order) = subs
        \<and> effects (purchase_webhook client ev now addr subs order) = [Grant uid (Inr False)])
   \<and> (StoreWrite k \<in> set (effects (purchase_webhook client ev now addr subs order))
    \<longrightarrow> (\<exists>u. assignPremiumRole client ev u = Inr True
           \<and> effects (purchase_webhook client ev now addr subs order) =
              [Grant u (Inr True), StoreWrite k]))
   \<and> (subscriptions (purchase_webhook client ev now addr subs order) \<noteq> subs
    \<longrightarrow> (\<exists>u. assignPremiumRole client ev u = Inr True
           \<and> effects (purchase_webhook client ev now addr subs order) =
              [Grant u (Inr True), StoreWrite (key_of addr (get_prop order ''id''))]))"
  by (simp add: purchase_webhook_def split: sum.splits)

text \<open>The body \<^verbatim>\<open>{id: "o1", discordUserId: "d1"}\<close> with the member lookup rejecting:
  500 and the store still empty. With every call resolving, the store changes and the
  write follows the grant.\<close>

theorem purchase_grant_failure_witness:
  "discordUserId_of example_order = Inr (Str ''d1'') \<and> truthy (Str ''d1'')
   \<and> assignPremiumRole failing_client example_env (Str ''d1'') = Inr False
   \<and> response (purchase_webhook failing_client example_env 5 0 Map.empty example_order) =
        Json 500 (error_body ''Failed to assign role'')
   \<and> subscriptions (purchase_webhook failing_client example_env 5 0 Map.empty example_order) =
        Map.empty
   \<and> StoreWrite (KStr ''o1'') \<in>
        set (effects (purchase_webhook example_client example_env 5 0 Map.empty example_order))
   \<and> subscriptions (purchase_webhook example_client example_env 5 0 Map.empty example_order) \<noteq>
        Map.empty
   \<and> effects (purchase_webhook example_client example_env 5 0 Map.empty example_order) =
        [Grant (Str ''d1'') (Inr True), StoreWrite (KStr ''o1'')]"
proof -
  have h1: "discordUserId_of example_order = Inr (Str ''d1'')"
    by (rule example_order_identity)
  have h2: "truthy (Str ''d1'')" by simp
  have h3: "assignPremiumRole failing_client example_env (Str ''d1'') = Inr False"
    by (rule failing_grant)
  have h4: "effects (purchase_webhook example_client example_env 5 0 Map.empty example_order) =
      [Grant (Str ''d1'') (Inr True), StoreWrite (KStr ''o1'')]"
    by (simp add: purchase_webhook_def example_order_identity example_grant example_order_id)
  have h5: "subscriptions (purchase_webhook example_client example_env 5 0 Map.empty
      example_order) (KStr ''o1'') \<noteq> Map.empty (KStr ''o1'')"
    by (simp add: purchase_webhook_def example_order_identity example_grant example_order_id)
  have h6: "subscriptions (purchase_webhook example_client example_env 5 0 Map.empty
      example_order) \<noteq> Map.empty"
    using h5 by metis
  show ?thesis
    using h1 h2 h3 h4 h6
      purchase_grant_failure [of example_order "Str ''d1''" failing_client example_env 5 0
        Map.empty "KStr ''o1''"]
      purchase_grant_failure [of example_order "Str ''d1''" example_client example_env 5 0
        Map.empty "KStr ''o1''"]
    by simp
qed

section \<open>The cancellation webhook\<close>

text \<open>
  Claim C2. For every cancellation webhook whose order id is a key of the store, if the
  role revoke succeeds then the handler sets the status of the stored record to cancelled
  (from active, or from whatever it was), sets its cancellation time, leaves its other
  fields and the other entries of the store alone, and responds 200 with the body
  \<^verbatim>\<open>{success: true, message: 'Role removed successfully'}\<close>.
\<close>

theorem cancellation_revoke_success:
  assumes "read_prop order ''id'' = Inr orderId"
    and "subs (key_of addr orderId) = Some subscription"
    and "removePremiumRole client ev (get_prop (Obj subscription) ''discordId'') = Inr True"
  shows "response (cancellation_webhook client ev now addr subs order) =
           Json 200 (Obj [(''success'', Bool True),
                          (''message'', Str ''Role removed successfully'')])
       \<and> (\<exists>record. subscriptions (cancellation_webhook client ev now addr subs order) =
                      subs(key_of addr orderId \<mapsto> record)
              \<and> get_prop (Obj record) ''status'' = Str ''cancelled''
              \<and> get_prop (Obj record) ''cancelledAt'' = Date now
              \<and> (\<forall>k. k \<noteq> ''status'' \<and> k \<noteq> ''cancelledAt'' \<longrightarrow>
                     get_prop (Obj record) k = get_prop (Obj subscription) k))
       \<and> effects (cancellation_webhook client ev now addr subs order) =
           [Revoke (get_prop (Obj subscription) ''discordId'') (Inr True),
            StoreWrite (key_of addr orderId), StoreWrite (key_of addr orderId)]"
proof -
  let ?updated =
    "set_prop (set_prop subscription ''status'' (Str ''cancelled'')) ''cancelledAt'' (Date now)"
  have resp: "response (cancellation_webhook client ev now addr subs order) =
      Json 200 (Obj [(''success'', Bool True), (''message'', Str ''Role removed successfully'')])"
    using assms by (simp add: cancellation_webhook_def success_body_def)
  have st: "subscriptions (cancellation_webhook client ev now addr subs order) =
      subs(key_of addr orderId \<mapsto> ?updated)"
    using assms by (simp add: cancellation_webhook_def)
  have eff: "effects (cancellation_webhook client ev now addr subs order) =
      [Revoke (get_prop (Obj subscription) ''discordId'') (Inr True),
       StoreWrite (key_of addr orderId), StoreWrite (key_of addr orderId)]"
    using assms by (simp add: cancellation_webhook_def)
  have status: "get_prop (Obj ?updated) ''status'' = Str ''cancelled''"
    by (simp add: map_of_set_prop_same map_of_set_prop_other)
  have stamp: "get_prop (Obj ?updated) ''cancelledAt'' = Date now"
    by (simp add: map_of_set_prop_same)
  have rest: "\<forall>k. k \<noteq> ''status'' \<and> k \<noteq> ''cancelledAt'' \<longrightarrow>
      get_prop (Obj ?updated) k = get_prop (Obj subscription) k"
    by (simp add: map_of_set_prop_other)
  from resp st eff status stamp rest show ?thesis by blast
qed

text \<open>The purchase of o1 at time 5 followed by the cancellation \<^verbatim>\<open>{id: "o1"}\<close> at
  time 7, grant and revoke succeeding: 200 with the success body, and the record under o1
  is the cancelled one.\<close>

theorem cancellation_revoke_success_witness:
  "read_prop example_cancellation ''id'' = Inr (Str ''o1'')
   \<and> subscriptions (purchase_webhook example_client example_env 5 0 Map.empty example_order)
        (key_of 1 (Str ''o1'')) =
        Some [(''discordId'', Str ''d1''), (''orderId'', Str ''o1''),
              (''status'', Str ''active''), (''createdAt'', Date 5)]
   \<and> removePremiumRole example_client example_env (Str ''d1'') = Inr True
   \<and> response (cancellation_webhook example_client example_env 7 1
        (subscriptions (purchase_webhook example_client example_env 5 0 Map.empty example_order))
        example_cancellation) =
        Json 200 (Obj [(''success'', Bool True),
                       (''message'', Str ''Role removed successfully'')])
   \<and> subscriptions (cancellation_webhook example_client example_env 7 1
        (subscriptions (purchase_webhook example_client example_env 5 0 Map.empty example_order))
        example_cancellation) (KStr ''o1'') =
        Some [(''discordId'', Str ''d1''), (''orderId'', Str ''o1''),
              (''status'', Str ''cancelled''), (''createdAt'', Date 5),
              (''cancelledAt'', Date 7)]"
proof -
  have h1: "read_prop example_cancellation ''id'' = Inr (Str ''o1'')"
    by (rule example_cancellation_id)
  have h2: "subscriptions (purchase_webhook example_client example_env 5 0 Map.empty
      example_order) (key_of 1 (Str ''o1'')) = Some active_record"
    by (simp add: example_purchase_store)
  have h3: "removePremiumRole example_client example_env
      (get_prop (Obj active_record) ''discordId'') = Inr True"
    by (rule example_revoke)
  have h4: "subscriptions (cancellation_webhook example_client example_env 7 1
      (subscriptions (purchase_webhook example_client example_env 5 0 Map.empty example_order))
      example_cancellation) (KStr ''o1'') = Some cancelled_record"
    by (simp add: cancellation_webhook_def example_cancellation_id example_purchase_store
        example_revoke active_record_def cancelled_record_def)
  show ?thesis
    using h1 h2 h3 h4
      cancellation_revoke_success [where order = example_cancellation
        and orderId = "Str ''o1''" and addr = 1 and subscription = active_record
        and subs = "subscriptions (purchase_webhook example_client example_env 5 0 Map.empty
          example_order)"
        and client = example_client and ev = example_env and now = 7, OF h1 h2 h3]
    by (simp add: active_record_def cancelled_record_def example_revoke)
qed

text \<open>
  Claim C6. For every cancellation webhook whose order id is not a key of the store, the
  handler responds 404, leaves the store as it was and makes no revoke call.
\<close>

theorem cancellation_unknown_order:
  assumes "read_prop order ''id'' = Inr orderId" and "subs (key_of addr orderId) = None"
  shows "response (cancellation_webhook client ev now addr subs order) =
           Json 404 (error_body ''Subscription not found'')
       \<and> subscriptions (cancellation_webhook client ev now addr subs order) = subs
       \<and> effects (cancellation_webhook client ev now addr subs order) = []"
  using assms by (simp add: cancellation_webhook_def)

text \<open>The cancellation \<^verbatim>\<open>{id: "o1"}\<close> on the empty store.\<close>

theorem cancellation_unknown_order_witness:
  "read_prop example_cancellation ''id'' = Inr (Str ''o1'')
   \<and> (Map.empty :: store) (key_of 1 (Str ''o1'')) = None
   \<and> response (cancellation_webhook example_client example_env 7 1 Map.empty
        example_cancellation) = Json 404 (error_body ''Subscription not found'')
   \<and> subscriptions (cancellation_webhook example_client example_env 7 1 Map.empty
        example_cancellation) = Map.empty
   \<and> effects (cancellation_webhook example_client example_env 7 1 Map.empty
        example_cancellation) = []"
proof -
  have h1: "read_prop example_cancellation ''id'' = Inr (Str ''o1'')"
    by (rule example_cancellation_id)
  have h2: "(Map.empty :: store) (key_of 1 (Str ''o1'')) = None" by simp
  show ?thesis
    using h1 h2
      cancellation_unknown_order [where order = example_cancellation
        and orderId = "Str ''o1''" and addr = 1 and subs = Map.empty
        and client = example_client and ev = example_env and now = 7, OF h1 h2]
    by simp
qed

text \<open>
  Claim C7. For every cancellation webhook whose order id is a key of the store, if the
  role revoke returns false then the handler responds 500 and the stored record, its
  status included, is as it was: nothing in the store changes.
\<close>

theorem cancellation_revoke_failure:
  assumes "read_prop order ''id'' = Inr orderId"
    and "subs (key_of addr orderId) = Some subscription"
    and "removePremiumRole client ev (get_prop (Obj subscription) ''discordId'') = Inr False"
  shows "response (cancellation_webhook client ev now addr subs order) =
           Json 500 (error_body ''Failed to remove role'')
       \<and> subscriptions (cancellation_webhook client ev now addr subs order) = subs
       \<and> subscriptions (cancellation_webhook client ev now addr subs order)
           (key_of addr orderId) = Some subscription
       \<and> effects (cancellation_webhook client ev now addr subs order) =
           [Revoke (get_prop (Obj subscription) ''discordId'') (Inr False)]"
  using assms by (simp add: cancellation_webhook_def)

text \<open>The cancellation of the active order o1 with the member lookup rejecting: 500, and
  the record is still the active one.\<close>

theorem cancellation_revoke_failure_witness:
  "read_prop example_cancellation ''id'' = Inr (Str ''o1'')
   \<and> [KStr ''o1'' \<mapsto> active_record] (key_of 1 (Str ''o1'')) = Some active_record
   \<and> removePremiumRole failing_client example_env (get_prop (Obj active_record) ''discordId'') =
        Inr False
   \<and> response (cancellation_webhook failing_client example_env 7 1
        [KStr ''o1'' \<mapsto> active_record] example_cancellation) =
        Json 500 (error_body ''Failed to remove role'')
   \<and> subscriptions (cancellation_webhook failing_client example_env 7 1
        [KStr ''o1'' \<mapsto> active_record] example_cancellation) (KStr ''o1'') =
        Some active_record"
proof -
  have h1: "read_prop example_cancellation ''id'' = Inr (Str ''o1'')"
    by (rule example_cancellation_id)
  have h2: "[KStr ''o1'' \<mapsto> active_record] (key_of 1 (Str ''o1'')) = Some active_record"
    by simp
  have h3: "removePremiumRole failing_client example_env
      (get_prop (Obj active_record) ''discordId'') = Inr False"
    by (rule failing_revoke)
  show ?thesis
    using h1 h2 h3
      cancellation_revoke_failure [where order = example_cancellation
        and orderId = "Str ''o1''" and addr = 1 and subscription = active_record
        and subs = "[KStr ''o1'' \<mapsto> active_record]"
        and client = failing_client and ev = example_env and now = 7, OF h1 h2 h3]
    by simp
qed

text \<open>
  Claim C10. The cancellation handler never looks at the status of the stored record. For
  every cancellation webhook whose order id is a key of the store, whatever the record
  holds (a status already cancelled, or no status at all as in a record the OAuth callback
  stored), it calls the revoke on the discordId of the record, and when the revoke succeeds
  it sets the cancellation time to the present one and responds 200. Putting any value
  \<open>s\<close> in the status of the record beforehand changes neither the response nor the calls.
\<close>

theorem cancellation_ignores_status:
  assumes "read_prop order ''id'' = Inr orderId"
    and "subs (key_of addr orderId) = Some subscription"
  shows "(\<exists>r. removePremiumRole client ev (get_prop (Obj subscription) ''discordId'') = Inr r
            \<and> hd (effects (cancellation_webhook client ev now addr subs order)) =
                Revoke (get_prop (Obj subscription) ''discordId'') (Inr r))
       \<and> (removePremiumRole client ev (get_prop (Obj subscription) ''discordId'') = Inr True
          \<longrightarrow> response (cancellation_webhook client ev now addr subs order) =
                Json 200 (success_body ''Role removed successfully'')
              \<and> (\<exists>record. subscriptions (cancellation_webhook client ev now addr subs order)
                             (key_of addr orderId) = Some record
                    \<and> get_prop (Obj record) ''cancelledAt'' = Date now))
       \<and> response (cancellation_webhook client ev now addr
            (subs(key_of addr orderId \<mapsto> set_prop subscription ''status'' s)) order) =
          response (cancellation_webhook client ev now addr subs order)
       \<and> effects (cancellation_webhook client ev now addr
            (subs(key_of addr orderId \<mapsto> set_prop subscription ''status'' s)) order) =
          effects (cancellation_webhook client ev now addr subs order)"
proof -
  obtain r where r:
    "removePremiumRole client ev (get_prop (Obj subscription) ''discordId'') = Inr r"
    using removePremiumRole_returns by blast
  have same_id: "get_prop (Obj (set_prop subscription ''status'' s)) ''discordId'' =
      get_prop (Obj subscription) ''discordId''"
    by (simp add: map_of_set_prop_other)
  have call: "hd (effects (cancellation_webhook client ev now addr subs order)) =
      Revoke (get_prop (Obj subscription) ''discordId'') (Inr r)"
    using assms r by (simp add: cancellation_webhook_def Let_def)
  have ok: "removePremiumRole client ev (get_prop (Obj subscription) ''discordId'') = Inr True
      \<longrightarrow> response (cancellation_webhook client ev now addr subs order) =
            Json 200 (success_body ''Role removed successfully'')
          \<and> (\<exists>record. subscriptions (cancellation_webhook client ev now addr subs order)
                         (key_of addr orderId) = Some record
                \<and> get_prop (Obj record) ''cancelledAt'' = Date now)"
    using assms by (simp add: cancellation_webhook_def Let_def map_of_set_prop_same)
  have resp: "response (cancellation_webhook client ev now addr
        (subs(key_of addr orderId \<mapsto> set_prop subscription ''status'' s)) order) =
      response (cancellation_webhook client ev now addr subs order)"
    using assms r same_id by (cases r) (simp_all add: cancellation_webhook_def Let_def)
  have eff: "effects (cancellation_webhook client ev now addr
        (subs(key_of addr orderId \<mapsto> set_prop subscription ''status'' s)) order) =
      effects (cancellation_webhook client ev now addr subs order)"
    using assms r same_id by (cases r) (simp_all add: cancellation_webhook_def Let_def)
  from r call ok resp eff show ?thesis by blast
qed

text \<open>The order o1 already cancelled at time 7 is cancelled again at time 9: the revoke is
  called on d1 once more, the response is 200 and the cancellation time is now 9. A record
  as the OAuth callback stores it, with no status, is cancelled in the same way.\<close>

theorem cancellation_ignores_status_witness:
  "read_prop example_cancellation ''id'' = Inr (Str ''o1'')
   \<and> [KStr ''o1'' \<mapsto> cancelled_record] (key_of 1 (Str ''o1'')) = Some cancelled_record
   \<and> removePremiumRole example_client example_env
        (get_prop (Obj cancelled_record) ''discordId'') = Inr True
   \<and> get_prop (Obj cancelled_record) ''status'' = Str ''cancelled''
   \<and> effects (cancellation_webhook example_client example_env 9 1
        [KStr ''o1'' \<mapsto> cancelled_record] example_cancellation) =
        [Revoke (Str ''d1'') (Inr True), StoreWrite (KStr ''o1''), StoreWrite (KStr ''o1'')]
   \<and> response (cancellation_webhook example_client example_env 9 1
        [KStr ''o1'' \<mapsto> cancelled_record] example_cancellation) =
        Json 200 (success_body ''Role removed successfully'')
   \<and> map_option (\<lambda>record. get_prop (Obj record) ''cancelledAt'')
        (subscriptions (cancellation_webhook example_client example_env 9 1
           [KStr ''o1'' \<mapsto> cancelled_record] example_cancellation) (KStr ''o1'')) =
        Some (Date 9)
   \<and> get_prop (Obj session_record) ''status'' = Undefined
   \<and> response (cancellation_webhook example_client example_env 9 1
        [KStr ''o1'' \<mapsto> session_record] example_cancellation) =
        Json 200 (success_body ''Role removed successfully'')"
proof -
  have h1: "read_prop example_cancellation ''id'' = Inr (Str ''o1'')"
    by (rule example_cancellation_id)
  have h2: "[KStr ''o1'' \<mapsto> cancelled_record] (key_of 1 (Str ''o1'')) = Some cancelled_record"
    by simp
  have h3: "removePremiumRole example_client example_env
      (get_prop (Obj cancelled_record) ''discordId'') = Inr True"
    by (rule example_revoke)
  have h4: "effects (cancellation_webhook example_client example_env 9 1
        [KStr ''o1'' \<mapsto> cancelled_record] example_cancellation) =
        [Revoke (Str ''d1'') (Inr True), StoreWrite (KStr ''o1''), StoreWrite (KStr ''o1'')]"
    by (simp add: cancellation_webhook_def example_cancellation_id example_revoke Let_def
        cancelled_record_def)
  have h5: "map_option (\<lambda>record. get_prop (Obj record) ''cancelledAt'')
        (subscriptions (cancellation_webhook example_client example_env 9 1
           [KStr ''o1'' \<mapsto> cancelled_record] example_cancellation) (KStr ''o1'')) =
        Some (Date 9)"
    by (simp add: cancellation_webhook_def example_cancellation_id example_revoke Let_def
        cancelled_record_def)
  have h6: "get_prop (Obj cancelled_record) ''status'' = Str ''cancelled''"
    by (simp add: cancelled_record_def)
  have h7: "get_prop (Obj session_record) ''status'' = Undefined"
    by (simp add: session_record_def)
  have h8: "response (cancellation_webhook example_client example_env 9 1
        [KStr ''o1'' \<mapsto> session_record] example_cancellation) =
        Json 200 (success_body ''Role removed successfully'')"
    by (simp add: cancellation_webhook_def example_cancellation_id example_revoke Let_def)
  show ?thesis
    using h1 h2 h3 h4 h5 h6 h7 h8
      cancellation_ignores_status [where order = example_cancellation
        and orderId = "Str ''o1''" and addr = 1 and subscription = cancelled_record
        and subs = "[KStr ''o1'' \<mapsto> cancelled_record]"
        and client = example_client and ev = example_env and now = 9 and s = "Str ''x''",
        OF h1 h2]
    by simp
qed

section \<open>The OAuth callback\<close>

text \<open>
  Claim C8. For every OAuth callback request without the code query parameter, the handler
  responds 400 before any token exchange, profile fetch or write to the store: the run
  has no effect and the store is as it was.
\<close>

theorem oauth_missing_code:
  "oauth_callback web ev t1 t2 subs Undefined =
     \<lparr>response = Json 400 (error_body ''No code provided''), subscriptions = subs,
      effects = []\<rparr>"
  by (simp add: oauth_callback_def)

text \<open>On the store holding the active order o1.\<close>

theorem oauth_missing_code_witness:
  "response (oauth_callback example_web example_env 42 43 [KStr ''o1'' \<mapsto> active_record]
       Undefined) = Json 400 (error_body ''No code provided'')
   \<and> subscriptions (oauth_callback example_web example_env 42 43
       [KStr ''o1'' \<mapsto> active_record] Undefined) = [KStr ''o1'' \<mapsto> active_record]
   \<and> effects (oauth_callback example_web example_env 42 43 [KStr ''o1'' \<mapsto> active_record]
       Undefined) = []"
  using oauth_missing_code [of example_web example_env 42 43 "[KStr ''o1'' \<mapsto> active_record]"]
  by simp

text \<open>
  The claim C3 as written asks for a stored record whose status is pending-link. The
  callback with code abc at time 42 (the record's timestamp read at 43), token and profile
  fetched, stores under the session key 42 a record with the fields discordId, username
  and timestamp only: its status reads undefined.
\<close>

theorem oauth_status_counterexample:
  "subscriptions (oauth_callback example_web example_env 42 43 Map.empty (Str ''abc''))
     (KStr ''42'') = Some session_record
   \<and> get_prop (Obj session_record) ''status'' = Undefined
   \<and> get_prop (Obj session_record) ''status'' \<noteq> Str ''pending-link''"
  by (simp add: oauth_callback_def example_web_def read_prop_def show_int_42 Let_def
      session_record_def)

text \<open>
  Claim C3, amended. For every OAuth callback request with a code whose token exchange and
  profile fetch succeed (each resolves to a JSON value other than null), the handler stores
  under a session key minted from the clock, the decimal digits of the time in
  milliseconds, a record that holds the discordId and the username of the profile and a
  timestamp and has no status field, and responds with a redirect (302) to the configured
  website's checkout URL with the session key appended as the query parameter session.
\<close>

theorem oauth_session_record:
  assumes "truthy code"
    and "token_exchange web code = Inr tokenData"
    and "read_prop tokenData ''access_token'' = Inr access_token"
    and "profile_fetch web access_token = Inr userData"
    and "read_prop userData ''id'' = Inr userId"
  shows "response (oauth_callback web ev t1 t2 subs code) =
           Redirect 302 (template (WEBSITE_URL ev) @ ''/checkout?session='' @ show_int t1)
       \<and> subscriptions (oauth_callback web ev t1 t2 subs code) =
           subs(KStr (show_int t1) \<mapsto>
             [(''discordId'', userId), (''username'', get_prop userData ''username''),
              (''timestamp'', Num (Fin (of_int t2)))])
       \<and> get_prop (Obj [(''discordId'', userId), (''username'', get_prop userData ''username''),
              (''timestamp'', Num (Fin (of_int t2)))]) ''status'' = Undefined
       \<and> effects (oauth_callback web ev t1 t2 subs code) =
           [TokenExchange code, ProfileFetch access_token, StoreWrite (KStr (show_int t1))]"
  using assms by (simp add: oauth_callback_def Let_def)

text \<open>The callback with code abc at time 42.\<close>

theorem oauth_session_record_witness:
  "truthy (Str ''abc'')
   \<and> token_exchange example_web (Str ''abc'') = Inr (Obj [(''access_token'', Str ''tok'')])
   \<and> read_prop (Obj [(''access_token'', Str ''tok'')]) ''access_token'' = Inr (Str ''tok'')
   \<and> profile_fetch example_web (Str ''tok'') =
        Inr (Obj [(''id'', Str ''d1''), (''username'', Str ''buyer'')])
   \<and> read_prop (Obj [(''id'', Str ''d1''), (''username'', Str ''buyer'')]) ''id'' =
        Inr (Str ''d1'')
   \<and> response (oauth_callback example_web example_env 42 43 Map.empty (Str ''abc'')) =
        Redirect 302 ''https://shop.example/checkout?session=42''
   \<and> subscriptions (oauth_callback example_web example_env 42 43 Map.empty (Str ''abc'')) =
        [KStr ''42'' \<mapsto> session_record]"
proof -
  have h1: "truthy (Str ''abc'')" by simp
  have h2: "token_exchange example_web (Str ''abc'') =
      Inr (Obj [(''access_token'', Str ''tok'')])"
    by (simp add: example_web_def)
  have h3: "read_prop (Obj [(''access_token'', Str ''tok'')]) ''access_token'' =
      Inr (Str ''tok'')"
    by (simp add: read_prop_def)
  have h4: "profile_fetch example_web (Str ''tok'') =
      Inr (Obj [(''id'', Str ''d1''), (''username'', Str ''buyer'')])"
    by (simp add: example_web_def)
  have h5: "read_prop (Obj [(''id'', Str ''d1''), (''username'', Str ''buyer'')]) ''id'' =
      Inr (Str ''d1'')"
    by (simp add: read_prop_def)
  show ?thesis
    using h1 h2 h3 h4 h5
      oauth_session_record [OF h1 h2 h3 h4 h5, of example_env 42 43 Map.empty]
    by (simp add: show_int_42 template_def example_env_def session_record_def)
qed

end
